theory Spec2Isabelle
  imports Main "HOL-Library.Word" "HOL-Library.Code_Target_Nat"
begin

section \<open>The skip list of src/primer/skiplist.cpp\<close>

text \<open>
  The list is a pointer structure: a node is shared by the chains of all the levels it
  takes part in, so the model keeps an explicit heap. An address is an index into the
  heap, a \<open>shared_ptr\<close> is an optional address (\<open>None\<close> is \<open>nullptr\<close>).
\<close>

text \<open>
  A name of Isabelle cannot end in an underscore: the members \<open>links_\<close>, \<open>key_\<close>,
  \<open>header_\<close>, \<open>size_\<close>, \<open>rng_\<close> and \<open>compare_\<close> of the source are the fields
  \<open>links_f\<close>, \<open>key_f\<close>, \<open>header_f\<close>, \<open>size_f\<close>, \<open>rng_f\<close> and \<open>compare_f\<close>.
\<close>

type_synonym addr = nat

record 'k SkipNode =
  links_f :: "addr option list"
  key_f :: 'k

text \<open>
  What C++ leaves undefined is a value of the model: the dereference of a null pointer
  and the access to a vector outside its bounds (with the index asked for). A pointer to
  an address that was never allocated cannot arise from \<open>make_shared\<close>; it is a fault of
  its own, so that every function of the model is total.
\<close>

datatype fault = NullDeref | OutOfBounds nat | Dangling addr

text \<open>
  The result of a call: \<open>None\<close> when the fuel of a loop ran out, \<open>Some (Inl e)\<close>
  when the call ran into the fault \<open>e\<close>, \<open>Some (Inr v)\<close> when it returned \<open>v\<close>.
\<close>

type_synonym 'a result = "(fault + 'a) option"

record 'k SkipList =
  heap :: "'k SkipNode list"
  header_f :: addr
  size_f :: "64 word"
  rng_f :: nat

text \<open>
  The template arguments and the members that never change: the comparator
  \<open>compare_\<close>, \<open>MaxHeight\<close> (a \<open>size_t\<close>, so below \<open>2 ^ 64\<close>), and the generator.
  \<open>std::mt19937\<close> and its seed are declared in primer/skiplist.h, so the output of the
  generator is the parameter \<open>rng_out\<close>: the call number \<open>n\<close> of \<open>rng_()\<close>, from 0,
  returns \<open>rng_out n\<close>, and the field \<open>rng_f\<close> of the list counts the calls made so
  far.
\<close>

record 'k targs =
  compare_f :: "'k \<Rightarrow> 'k \<Rightarrow> bool"
  MaxHeight :: nat
  rng_out :: "nat \<Rightarrow> 32 word"

subsection \<open>Nodes\<close>

definition deref :: "'k SkipNode list \<Rightarrow> addr option \<Rightarrow> fault + 'k SkipNode" where
  "deref h p = (case p of
       None \<Rightarrow> Inl NullDeref
     | Some a \<Rightarrow> if a < length h then Inr (h ! a) else Inl (Dangling a))"

definition Height :: "'k SkipNode \<Rightarrow> nat" where
  "Height n = length (links_f n)"

definition Next :: "'k SkipNode \<Rightarrow> nat \<Rightarrow> fault + addr option" where
  "Next n level = (if level < length (links_f n) then Inr (links_f n ! level)
                   else Inl (OutOfBounds level))"

definition SetNext :: "'k SkipNode \<Rightarrow> nat \<Rightarrow> addr option \<Rightarrow> fault + 'k SkipNode" where
  "SetNext n level node = (if level < length (links_f n)
       then Inr (n\<lparr>links_f := (links_f n)[level := node]\<rparr>)
       else Inl (OutOfBounds level))"

definition Key :: "'k SkipNode \<Rightarrow> 'k" where
  "Key n = key_f n"

text \<open>
  Modelled from the spec: the constructor of \<open>SkipNode\<close> is in primer/skiplist.h, which
  is not among the sources. The spec has "the link collection at a node is exactly length
  height", each link absent until it is set.
\<close>

definition mk_SkipNode :: "nat \<Rightarrow> 'k \<Rightarrow> 'k SkipNode" where
  "mk_SkipNode height key = \<lparr>links_f = replicate height None, key_f = key\<rparr>"

text \<open>
  Modelled from the spec: the construction of the list is in primer/skiplist.h too. The
  header is a node of \<open>MaxHeight\<close> links, "created once at list construction", and the
  count starts at 0. The source reads the key of the header (\<open>current->Key()\<close> with
  \<open>current = header_\<close>), so the header has one: it is the parameter \<open>hk\<close>.
\<close>

definition SkipList_new :: "'k targs \<Rightarrow> 'k \<Rightarrow> 'k SkipList" where
  "SkipList_new T hk =
     \<lparr>heap = [mk_SkipNode (MaxHeight T) hk], header_f = 0, size_f = 0, rng_f = 0\<rparr>"

subsection \<open>RandomHeight\<close>

function RandomHeight_loop :: "(nat \<Rightarrow> 32 word) \<Rightarrow> nat \<Rightarrow> nat \<Rightarrow> nat \<Rightarrow> nat \<times> nat" where
  "RandomHeight_loop gen maxh calls height =
     (if height < maxh then
        (if gen calls mod 4 = 0 then RandomHeight_loop gen maxh (Suc calls) (Suc height)
         else (height, Suc calls))
      else (height, calls))"
  by pat_completeness auto
termination
  by (relation "measure (\<lambda>(gen, maxh, calls, height). maxh - height)") auto

declare RandomHeight_loop.simps [simp del]

definition RandomHeight :: "'k targs \<Rightarrow> 'k SkipList \<Rightarrow> nat \<times> 'k SkipList" where
  "RandomHeight T s =
     (let (height, calls) = RandomHeight_loop (rng_out T) (MaxHeight T) (rng_f s) 1
      in (height, s\<lparr>rng_f := calls\<rparr>))"

subsection \<open>Conversions of \<open>size_t\<close>\<close>

text \<open>
  \<open>MaxHeight - 1\<close> and \<open>random_height - 1\<close> are computed in \<open>size_t\<close> (0 - 1 wraps to
  \<open>2 ^ 64 - 1\<close>); \<open>int i = ...\<close> then keeps the low 32 bits, read in two's complement.
\<close>

definition size_t_pred :: "nat \<Rightarrow> 64 word" where
  "size_t_pred n = word_of_nat n - 1"

definition int_of_size_t :: "64 word \<Rightarrow> int" where
  "int_of_size_t w = sint (ucast w :: 32 word)"

subsection \<open>Empty, Size\<close>

text \<open>
  Modelled from the spec: the constant \<open>LOWEST_LEVEL\<close> is declared in
  primer/skiplist.h. The spec has \<open>Empty\<close> "true iff the header's level-0 link is
  absent", and level 0 is the level that holds every key.
\<close>

definition LOWEST_LEVEL :: nat where
  "LOWEST_LEVEL = 0"

definition Empty :: "'k SkipList \<Rightarrow> bool result \<times> 'k SkipList" where
  "Empty s =
     (case deref (heap s) (Some (header_f s)) of
        Inl e \<Rightarrow> (Some (Inl e), s)
      | Inr hn \<Rightarrow> (case Next hn LOWEST_LEVEL of
            Inl e \<Rightarrow> (Some (Inl e), s)
          | Inr p \<Rightarrow> (Some (Inr (p = None)), s)))"

definition Size :: "'k SkipList \<Rightarrow> 64 word \<times> 'k SkipList" where
  "Size s = (size_f s, s)"

subsection \<open>Drop, Clear\<close>

text \<open>
  \<open>curr = std::move(curr->links_[i])\<close> reads the link of \<open>curr\<close> at level \<open>i\<close>, leaves
  \<open>nullptr\<close> in its place and goes to the node read. The fuel bounds the number of
  rounds of a \<open>while\<close> loop: the heap of the model may hold a cycle.
\<close>

fun Drop_chain ::
  "nat \<Rightarrow> 'k SkipNode list \<Rightarrow> nat \<Rightarrow> addr option \<Rightarrow> unit result \<times> 'k SkipNode list" where
  "Drop_chain fuel h i None = (Some (Inr ()), h)"
| "Drop_chain 0 h i (Some a) = (None, h)"
| "Drop_chain (Suc fuel) h i (Some a) =
     (case deref h (Some a) of
        Inl e \<Rightarrow> (Some (Inl e), h)
      | Inr n \<Rightarrow>
          if i < length (links_f n)
          then Drop_chain fuel (h[a := n\<lparr>links_f := (links_f n)[i := None]\<rparr>]) i (links_f n ! i)
          else (Some (Inl (OutOfBounds i)), h))"

function Drop_levels ::
  "nat \<Rightarrow> 'k targs \<Rightarrow> 'k SkipList \<Rightarrow> nat \<Rightarrow> unit result \<times> 'k SkipList" where
  "Drop_levels fuel T s i =
     (if i < MaxHeight T then
        (case deref (heap s) (Some (header_f s)) of
           Inl e \<Rightarrow> (Some (Inl e), s)
         | Inr hn \<Rightarrow>
             if i < length (links_f hn) then
               (case Drop_chain fuel
                       ((heap s)[header_f s := hn\<lparr>links_f := (links_f hn)[i := None]\<rparr>])
                       i (links_f hn ! i) of
                  (Some (Inr u), h') \<Rightarrow> Drop_levels fuel T (s\<lparr>heap := h'\<rparr>) (Suc i)
                | (Some (Inl e), h') \<Rightarrow> (Some (Inl e), s\<lparr>heap := h'\<rparr>)
                | (None, h') \<Rightarrow> (None, s\<lparr>heap := h'\<rparr>))
             else (Some (Inl (OutOfBounds i)), s))
      else (Some (Inr ()), s))"
  by pat_completeness auto
termination
  by (relation "measure (\<lambda>(fuel, T, s, i). MaxHeight T - i)") auto

declare Drop_levels.simps [simp del]

definition Drop :: "nat \<Rightarrow> 'k targs \<Rightarrow> 'k SkipList \<Rightarrow> unit result \<times> 'k SkipList" where
  "Drop fuel T s = Drop_levels fuel T s 0"

definition Clear :: "nat \<Rightarrow> 'k targs \<Rightarrow> 'k SkipList \<Rightarrow> unit result \<times> 'k SkipList" where
  "Clear fuel T s = Drop fuel T s"

subsection \<open>Contains\<close>

text \<open>
  A loop body either returns from the function (\<open>Return b\<close>) or leaves the loop with a
  value (\<open>Continue x\<close>).
\<close>

datatype 'a flow = Return bool | Continue 'a

fun Contains_scan ::
  "nat \<Rightarrow> ('k \<Rightarrow> 'k \<Rightarrow> bool) \<Rightarrow> 'k SkipNode list \<Rightarrow> 'k \<Rightarrow> nat \<Rightarrow> addr option \<Rightarrow> unit flow result"
  where
  "Contains_scan fuel lt h key i None = Some (Inr (Continue ()))"
| "Contains_scan 0 lt h key i (Some a) = None"
| "Contains_scan (Suc fuel) lt h key i (Some a) =
     (case deref h (Some a) of
        Inl e \<Rightarrow> Some (Inl e)
      | Inr n \<Rightarrow>
          if \<not> lt key (Key n) \<and> \<not> lt (Key n) key then Some (Inr (Return True))
          else if lt key (Key n) then Some (Inr (Continue ()))
          else (case Next n i of
                  Inl e \<Rightarrow> Some (Inl e)
                | Inr p \<Rightarrow> Contains_scan fuel lt h key i p))"

text \<open>
  The level counter is a \<open>size_t\<close>: \<open>i >= 0\<close> holds of every value of it, and \<open>i--\<close>
  at 0 wraps.
\<close>

fun Contains_levels :: "nat \<Rightarrow> 'k targs \<Rightarrow> 'k SkipList \<Rightarrow> 'k \<Rightarrow> 64 word \<Rightarrow> bool result" where
  "Contains_levels 0 T s key i = None"
| "Contains_levels (Suc fuel) T s key i =
     (if 0 \<le> i then
        (case deref (heap s) (Some (header_f s)) of
           Inl e \<Rightarrow> Some (Inl e)
         | Inr hn \<Rightarrow>
            (case Next hn (unat i) of
               Inl e \<Rightarrow> Some (Inl e)
             | Inr node \<Rightarrow>
                (case Contains_scan fuel (compare_f T) (heap s) key (unat i) node of
                   None \<Rightarrow> None
                 | Some (Inl e) \<Rightarrow> Some (Inl e)
                 | Some (Inr (Return b)) \<Rightarrow> Some (Inr b)
                 | Some (Inr (Continue u)) \<Rightarrow> Contains_levels fuel T s key (i - 1))))
      else Some (Inr False))"

definition Contains :: "nat \<Rightarrow> 'k targs \<Rightarrow> 'k SkipList \<Rightarrow> 'k \<Rightarrow> bool result \<times> 'k SkipList" where
  "Contains fuel T s key = (Contains_levels fuel T s key (size_t_pred (MaxHeight T)), s)"

subsection \<open>Insert\<close>

text \<open>
  The \<open>while\<close> loop of the descent at level \<open>i\<close>, from \<open>current\<close>. The two tests of
  its body read the key of \<open>current\<close> (the header, at first), not the key of
  \<open>current->Next(i)\<close>.
\<close>

fun Insert_walk ::
  "nat \<Rightarrow> ('k \<Rightarrow> 'k \<Rightarrow> bool) \<Rightarrow> 'k SkipNode list \<Rightarrow> 'k \<Rightarrow> nat \<Rightarrow> addr \<Rightarrow> addr flow result"
  where
  "Insert_walk 0 lt h key i current = None"
| "Insert_walk (Suc fuel) lt h key i current =
     (case deref h (Some current) of
        Inl e \<Rightarrow> Some (Inl e)
      | Inr cn \<Rightarrow>
         (case Next cn i of
            Inl e \<Rightarrow> Some (Inl e)
          | Inr None \<Rightarrow> Some (Inr (Continue current))
          | Inr (Some a) \<Rightarrow>
             (case deref h (Some a) of
                Inl e \<Rightarrow> Some (Inl e)
              | Inr nn \<Rightarrow>
                  if lt (Key nn) key then
                    (if \<not> lt key (Key cn) \<and> \<not> lt (Key cn) key then Some (Inr (Return False))
                     else if lt key (Key cn) then Some (Inr (Continue current))
                     else Insert_walk fuel lt h key i a)
                  else Some (Inr (Continue current)))))"

function Insert_descend ::
  "nat \<Rightarrow> 'k targs \<Rightarrow> 'k SkipNode list \<Rightarrow> 'k \<Rightarrow> int \<Rightarrow> addr \<Rightarrow> addr option list
     \<Rightarrow> (addr option list) flow result" where
  "Insert_descend fuel T h key i current update =
     (if 0 \<le> i then
        (case Insert_walk fuel (compare_f T) h key (nat i) current of
           None \<Rightarrow> None
         | Some (Inl e) \<Rightarrow> Some (Inl e)
         | Some (Inr (Return b)) \<Rightarrow> Some (Inr (Return b))
         | Some (Inr (Continue c)) \<Rightarrow>
             if nat i < length update
             then Insert_descend fuel T h key (i - 1) c (update[nat i := Some c])
             else Some (Inl (OutOfBounds (nat i))))
      else Some (Inr (Continue update)))"
  by pat_completeness auto
termination
  by (relation "measure (\<lambda>(fuel, T, h, key, i, current, update). nat (i + 1))") auto

declare Insert_descend.simps [simp del]

text \<open>
  The second loop splices the new node (at the address \<open>new_node\<close>) in after
  \<open>update[i]\<close>, from level \<open>random_height - 1\<close> down to 0. A fault leaves the heap as it
  is at that moment.
\<close>

function Insert_link ::
  "'k SkipNode list \<Rightarrow> addr \<Rightarrow> addr option list \<Rightarrow> int \<Rightarrow> (fault + unit) \<times> 'k SkipNode list"
  where
  "Insert_link h new_node update i =
     (if 0 \<le> i then
        (if nat i < length update then
           (case update ! nat i of
              None \<Rightarrow> (Inl NullDeref, h)
            | Some u \<Rightarrow>
               (case deref h (Some u) of
                  Inl e \<Rightarrow> (Inl e, h)
                | Inr un \<Rightarrow>
                   (case Next un (nat i) of
                      Inl e \<Rightarrow> (Inl e, h)
                    | Inr nx \<Rightarrow>
                       (case deref h (Some new_node) of
                          Inl e \<Rightarrow> (Inl e, h)
                        | Inr nn \<Rightarrow>
                           (case SetNext nn (nat i) nx of
                              Inl e \<Rightarrow> (Inl e, h)
                            | Inr nn' \<Rightarrow>
                               (let h1 = h[new_node := nn'] in
                                case deref h1 (Some u) of
                                  Inl e \<Rightarrow> (Inl e, h1)
                                | Inr un1 \<Rightarrow>
                                   (case SetNext un1 (nat i) (Some new_node) of
                                      Inl e \<Rightarrow> (Inl e, h1)
                                    | Inr un2 \<Rightarrow>
                                        Insert_link (h1[u := un2])
                                          new_node update (i - 1))))))))
         else (Inl (OutOfBounds (nat i)), h))
      else (Inr (), h))"
  by pat_completeness auto
termination
  by (relation "measure (\<lambda>(h, new_node, update, i). nat (i + 1))") auto

declare Insert_link.simps [simp del]

text \<open>
  The new node is made before the descent and lives on the heap only once the descent
  is over: on \<open>return false\<close> its only owner, the local \<open>new_node\<close>, goes out of scope.
  The call of \<open>RandomHeight\<close> has happened by then.
\<close>

definition Insert :: "nat \<Rightarrow> 'k targs \<Rightarrow> 'k SkipList \<Rightarrow> 'k \<Rightarrow> bool result \<times> 'k SkipList" where
  "Insert fuel T s0 key =
     (let (random_height, s) = RandomHeight T s0;
          update = replicate (MaxHeight T) None
      in case Insert_descend fuel T (heap s) key
                (int_of_size_t (size_t_pred (MaxHeight T))) (header_f s) update of
           None \<Rightarrow> (None, s)
         | Some (Inl e) \<Rightarrow> (Some (Inl e), s)
         | Some (Inr (Return b)) \<Rightarrow> (Some (Inr b), s)
         | Some (Inr (Continue update')) \<Rightarrow>
            (case Insert_link (heap s @ [mk_SkipNode random_height key]) (length (heap s))
                    update' (int_of_size_t (size_t_pred random_height)) of
               (Inl e, h') \<Rightarrow> (Some (Inl e), s\<lparr>heap := h'\<rparr>)
             | (Inr u, h') \<Rightarrow> (Some (Inr True), s\<lparr>heap := h', size_f := size_f s + 1\<rparr>)))"

subsection \<open>Erase\<close>

text \<open>
  The \<open>while\<close> loop of \<open>Erase\<close> at level \<open>i\<close>: \<open>node->Next(i)->Key()\<close> is read before
  anything is known of \<open>node->Next(i)\<close>.
\<close>

fun Erase_walk ::
  "nat \<Rightarrow> ('k \<Rightarrow> 'k \<Rightarrow> bool) \<Rightarrow> 'k SkipNode list \<Rightarrow> 'k \<Rightarrow> nat \<Rightarrow> addr option
     \<Rightarrow> unit result \<times> 'k SkipNode list" where
  "Erase_walk fuel lt h key i None = (Some (Inr ()), h)"
| "Erase_walk 0 lt h key i (Some a) = (None, h)"
| "Erase_walk (Suc fuel) lt h key i (Some a) =
     (case deref h (Some a) of
        Inl e \<Rightarrow> (Some (Inl e), h)
      | Inr n \<Rightarrow>
         (case Next n i of
            Inl e \<Rightarrow> (Some (Inl e), h)
          | Inr nx \<Rightarrow>
             (case deref h nx of
                Inl e \<Rightarrow> (Some (Inl e), h)
              | Inr nn \<Rightarrow>
                 (case (if \<not> lt key (Key nn) \<and> \<not> lt (Key nn) key
                        then (case Next nn i of
                                Inl e \<Rightarrow> Inl e
                              | Inr nnx \<Rightarrow>
                                 (case SetNext n i nnx of
                                    Inl e \<Rightarrow> Inl e
                                  | Inr n' \<Rightarrow> Inr (h[a := n'])))
                        else Inr h) of
                    Inl e \<Rightarrow> (Some (Inl e), h)
                  | Inr h1 \<Rightarrow>
                     (case deref h1 (Some a) of
                        Inl e \<Rightarrow> (Some (Inl e), h1)
                      | Inr n1 \<Rightarrow>
                          if lt key (Key n1) then (Some (Inr ()), h1)
                          else (case Next n1 i of
                                  Inl e \<Rightarrow> (Some (Inl e), h1)
                                | Inr p \<Rightarrow> Erase_walk fuel lt h1 key i p))))))"

fun Erase_levels ::
  "nat \<Rightarrow> 'k targs \<Rightarrow> 'k SkipList \<Rightarrow> 'k \<Rightarrow> 64 word \<Rightarrow> bool result \<times> 'k SkipList" where
  "Erase_levels 0 T s key i = (None, s)"
| "Erase_levels (Suc fuel) T s key i =
     (if 0 \<le> i then
        (case Erase_walk fuel (compare_f T) (heap s) key (unat i) (Some (header_f s)) of
           (None, h') \<Rightarrow> (None, s\<lparr>heap := h'\<rparr>)
         | (Some (Inl e), h') \<Rightarrow> (Some (Inl e), s\<lparr>heap := h'\<rparr>)
         | (Some (Inr u), h') \<Rightarrow> Erase_levels fuel T (s\<lparr>heap := h'\<rparr>) key (i - 1))
      else (Some (Inr True), s))"

text \<open>
  Modelled from the spec: \<open>Header()\<close> is declared in primer/skiplist.h; it is taken to
  return \<open>header_\<close>, the sentinel every traversal of the spec starts from.
\<close>

definition Erase :: "nat \<Rightarrow> 'k targs \<Rightarrow> 'k SkipList \<Rightarrow> 'k \<Rightarrow> bool result \<times> 'k SkipList" where
  "Erase fuel T s key =
     (case fst (Contains fuel T s key) of
        None \<Rightarrow> (None, s)
      | Some (Inl e) \<Rightarrow> (Some (Inl e), s)
      | Some (Inr found) \<Rightarrow>
          if \<not> found then (Some (Inr False), s)
          else Erase_levels fuel T s key (size_t_pred (MaxHeight T)))"

subsection \<open>Print\<close>

text \<open>
  \<open>Print\<close> walks the chain of level 0 from the header and writes one line for each
  node, with its key and its height; the model returns the lines as a list of pairs.
\<close>

fun Print_chain :: "nat \<Rightarrow> 'k SkipNode list \<Rightarrow> addr option \<Rightarrow> (('k \<times> nat) list) result" where
  "Print_chain fuel h None = Some (Inr [])"
| "Print_chain 0 h (Some a) = None"
| "Print_chain (Suc fuel) h (Some a) =
     (case deref h (Some a) of
        Inl e \<Rightarrow> Some (Inl e)
      | Inr n \<Rightarrow>
         (case Next n LOWEST_LEVEL of
            Inl e \<Rightarrow> Some (Inl e)
          | Inr p \<Rightarrow>
             (case Print_chain fuel h p of
                None \<Rightarrow> None
              | Some (Inl e) \<Rightarrow> Some (Inl e)
              | Some (Inr out) \<Rightarrow> Some (Inr ((Key n, Height n) # out)))))"

definition Print :: "nat \<Rightarrow> 'k SkipList \<Rightarrow> (('k \<times> nat) list) result" where
  "Print fuel s =
     (case deref (heap s) (Some (header_f s)) of
        Inl e \<Rightarrow> Some (Inl e)
      | Inr hn \<Rightarrow> (case Next hn LOWEST_LEVEL of
            Inl e \<Rightarrow> Some (Inl e)
          | Inr p \<Rightarrow> Print_chain fuel (heap s) p))"

subsection \<open>An instance\<close>

text \<open>
  The source instantiates \<open>SkipList<int, std::less<>, 8>\<close>. The header of a list of
  \<open>int\<close> is taken with the key 0 (the value of \<open>int{}\<close>). The generator of the examples
  gives the heights 2, 1, 1, 1, 2, 1, 1, 1, 2, ... that the spec quotes: of its draws,
  every fifth one is divisible by 4.
\<close>

definition rng_example :: "nat \<Rightarrow> 32 word" where
  "rng_example n = (if n mod 5 = 0 then 0 else 1)"

definition int_less_8 :: "int targs" where
  "int_less_8 = \<lparr>compare_f = (<), MaxHeight = 8, rng_out = rng_example\<rparr>"

definition list0 :: "int SkipList" where
  "list0 = SkipList_new int_less_8 0"

text \<open>
  Lists built by calls of \<open>Insert\<close> on the fresh list: of the key 5; of the key 1; of
  the key -1; and of the keys 10, -7, -5 in this order.
\<close>

definition list_5 :: "int SkipList" where
  "list_5 = snd (Insert 100 int_less_8 list0 5)"

definition list_1 :: "int SkipList" where
  "list_1 = snd (Insert 100 int_less_8 list0 1)"

definition list_m1 :: "int SkipList" where
  "list_m1 = snd (Insert 100 int_less_8 list0 (- 1))"

definition list_u :: "int SkipList" where
  "list_u = snd (Insert 100 int_less_8 (snd (Insert 100 int_less_8
               (snd (Insert 100 int_less_8 list0 10)) (- 7))) (- 5))"

section \<open>Properties\<close>

subsection \<open>What the loops can return\<close>

text \<open>
  The loop over a level in \<open>Contains\<close> returns from the function only with \<open>true\<close>,
  and the loop over the levels has no way out but that one: its test \<open>i >= 0\<close> on a
  \<open>size_t\<close> never fails. So \<open>Contains\<close> never returns \<open>false\<close>, and \<open>Erase\<close>, whose
  loop over the levels holds no \<open>return\<close>, never returns at all: each of the two ends in
  a fault when it does not return \<open>true\<close>.
\<close>

lemma Contains_scan_Return:
  "Contains_scan fuel lt h key i p = Some (Inr (Return b)) \<Longrightarrow> b"
  by (induction fuel lt h key i p rule: Contains_scan.induct)
     (auto split: sum.splits option.splits flow.splits if_splits)

lemma Contains_levels_not_False: "Contains_levels fuel T s key i \<noteq> Some (Inr False)"
  by (induction fuel arbitrary: i)
     (auto dest: Contains_scan_Return split: sum.splits option.splits flow.splits)

lemma Contains_never_false: "fst (Contains fuel T s key) \<noteq> Some (Inr False)"
  by (simp add: Contains_def Contains_levels_not_False)

lemma Erase_levels_no_return: "fst (Erase_levels fuel T s key i) \<noteq> Some (Inr b)"
  by (induction fuel arbitrary: s i)
     (auto split: sum.splits option.splits prod.splits)

lemma Erase_never_returns: "fst (Erase fuel T s key) \<noteq> Some (Inr b)"
  using Contains_levels_not_False [of fuel T s key]
  by (auto simp: Erase_def Contains_def Erase_levels_no_return split: sum.splits option.splits)

lemma Insert_walk_not_True:
  "Insert_walk fuel lt h key i current \<noteq> Some (Inr (Return True))"
  by (induction fuel lt h key i current rule: Insert_walk.induct)
     (auto split: sum.splits option.splits)

lemma Insert_descend_not_True:
  "Insert_descend fuel T h key i current update \<noteq> Some (Inr (Return True))"
proof (induction fuel T h key i current update rule: Insert_descend.induct)
  case (1 fuel T h key i current update)
  show ?case
    using Insert_walk_not_True [of fuel "compare_f T" h key "nat i" current]
    by (subst Insert_descend.simps)
       (auto simp: 1 split: sum.splits option.splits flow.splits)
qed

subsection \<open>The size counter\<close>

lemma Drop_levels_size: "size_f (snd (Drop_levels fuel T s i)) = size_f s"
proof (induction fuel T s i rule: Drop_levels.induct)
  case (1 fuel T s i)
  show ?case
    by (subst Drop_levels.simps)
       (auto simp: 1 split: sum.splits option.splits prod.splits unit.splits)
qed

lemma Erase_levels_size: "size_f (snd (Erase_levels fuel T s key i)) = size_f s"
  by (induction fuel arbitrary: s i)
     (auto split: sum.splits option.splits prod.splits)

subsection \<open>The loop of RandomHeight\<close>

lemma RandomHeight_loop_spec:
  "height \<le> maxh \<Longrightarrow> RandomHeight_loop gen maxh calls height = (h, c) \<Longrightarrow>
     height \<le> h \<and> h \<le> maxh
     \<and> (\<forall>j < h - height. gen (calls + j) mod 4 = 0)
     \<and> (h < maxh \<longrightarrow> gen (calls + (h - height)) mod 4 \<noteq> 0)
     \<and> c = calls + (if h < maxh then Suc (h - height) else h - height)"
proof (induction gen maxh calls height rule: RandomHeight_loop.induct)
  case (1 gen maxh calls height)
  show ?case
  proof (cases "height < maxh")
    case False
    with "1.prems"(2) have "h = height" "c = calls"
      by (simp_all add: RandomHeight_loop.simps [of gen maxh calls height])
    with False "1.prems"(1) show ?thesis by simp
  next
    case lt: True
    show ?thesis
    proof (cases "gen calls mod 4 = 0")
      case False
      with lt "1.prems"(2) have "h = height" "c = Suc calls"
        by (simp_all add: RandomHeight_loop.simps [of gen maxh calls height])
      with False lt show ?thesis by simp
    next
      case True
      from lt True "1.prems"
      have rec: "RandomHeight_loop gen maxh (Suc calls) (Suc height) = (h, c)"
        by (simp add: RandomHeight_loop.simps [of gen maxh calls height])
      from lt have "Suc height \<le> maxh" by simp
      note ih0 = "1.IH" [OF lt True this rec]
      note ih = ih0 [THEN conjunct1] ih0 [THEN conjunct2, THEN conjunct1]
        ih0 [THEN conjunct2, THEN conjunct2, THEN conjunct1]
        ih0 [THEN conjunct2, THEN conjunct2, THEN conjunct2, THEN conjunct1]
        ih0 [THEN conjunct2, THEN conjunct2, THEN conjunct2, THEN conjunct2]
      have all: "\<forall>j < h - height. gen (calls + j) mod 4 = 0"
      proof (intro allI impI)
        fix j assume j: "j < h - height"
        show "gen (calls + j) mod 4 = 0"
        proof (cases j)
          case 0 with True show ?thesis by simp
        next
          case (Suc j')
          with j have "j' < h - Suc height" by simp
          with ih(3) have "gen (Suc calls + j') mod 4 = 0" by simp
          with Suc show ?thesis by simp
        qed
      qed
      from ih(1) have eq: "calls + (h - height) = Suc calls + (h - Suc height)" by simp
      from ih(1) have eq2: "Suc (h - Suc height) = h - height" by simp
      show ?thesis using ih(1,2,4,5) all eq eq2 by (auto simp: Suc_diff_Suc)
    qed
  qed
qed

section \<open>The claims\<close>

text \<open>
  C1. The chain of level 0 is not always the ascending sequence of distinct keys. After
  \<open>Insert(5)\<close> twice on a fresh list, \<open>Print\<close> walks over two nodes of key 5: the
  descent of the second call stops in front of the resident 5 without ever comparing it
  for equivalence, and the new node is linked in. After \<open>Insert(10)\<close>, \<open>Insert(-7)\<close>,
  \<open>Insert(-5)\<close> the chain reads -5, -7, 10: the descent for -5 leaves its loop at the
  header, whose key 0 is above -5.
\<close>

theorem Insert_breaks_sorted_distinct_chain:
  "Print 100 (snd (Insert 100 int_less_8 list_5 5)) = Some (Inr [(5, 1), (5, 2)])
   \<and> Print 100 list_u = Some (Inr [(- 5, 1), (- 7, 1), (10, 2)])"
  by code_simp

text \<open>
  C2. On the list that holds 5 alone (size 1, \<open>Contains(5)\<close> true), \<open>Insert(5)\<close>
  returns true and the size becomes 2; and \<open>Erase(7)\<close>, of a key that is not resident,
  does not return false: its call of \<open>Contains\<close> goes below level 0 and reads the link
  \<open>2 ^ 64 - 1\<close> of the header.
\<close>

theorem Insert_of_resident_key_returns_true:
  "Print 100 list_5 = Some (Inr [(5, 2)])
   \<and> fst (Contains 100 int_less_8 list_5 5) = Some (Inr True)
   \<and> fst (Size list_5) = 1
   \<and> fst (Insert 100 int_less_8 list_5 5) = Some (Inr True)
   \<and> fst (Size (snd (Insert 100 int_less_8 list_5 5))) = 2
   \<and> fst (Erase 100 int_less_8 list_5 7) = Some (Inl (OutOfBounds 18446744073709551615))"
  by code_simp

text \<open>
  C3. On the list that holds 1 alone, \<open>Erase(1)\<close> does not return true: at the top
  level the header has no next node, and the loop reads the key of that absent node. The
  list is left as it was, the node still linked and the size still 1.
\<close>

theorem Erase_of_resident_key_faults:
  "fst (Contains 100 int_less_8 list_1 1) = Some (Inr True)
   \<and> Erase 100 int_less_8 list_1 1 = (Some (Inl NullDeref), list_1)
   \<and> Print 100 list_1 = Some (Inr [(1, 2)])
   \<and> fst (Size list_1) = 1"
  by code_simp

text \<open>
  C4. \<open>Contains\<close> of a key that is not resident does not return false: on the fresh
  list, \<open>Contains(1)\<close> finds every level empty, decrements the level counter at 0 and
  reads the link \<open>2 ^ 64 - 1\<close> of the header. On the list built from 10, -7, -5, whose
  chain of level 0 reads -5, -7, 10, the resident key -7 is not found either: the walk of
  level 0 breaks off at -5.
\<close>

theorem Contains_of_absent_key_faults:
  "Print 100 list0 = Some (Inr [])
   \<and> fst (Contains 100 int_less_8 list0 1) = Some (Inl (OutOfBounds 18446744073709551615))
   \<and> fst (Contains 100 int_less_8 list_u (- 7))
       = Some (Inl (OutOfBounds 18446744073709551615))"
  by code_simp

text \<open>
  C5. On the list that holds -1 alone, \<open>Insert(0)\<close> returns false although no node
  holds 0: the loop is entered at the header (the next key -1 is below 0), whose key 0
  is then taken for the key looked for. Nothing is linked and the size stays 1.
\<close>

theorem Insert_of_absent_key_returns_false:
  "Print 100 list_m1 = Some (Inr [(- 1, 2)])
   \<and> fst (Insert 100 int_less_8 list_m1 0) = Some (Inr False)
   \<and> Print 100 (snd (Insert 100 int_less_8 list_m1 0)) = Some (Inr [(- 1, 2)])
   \<and> fst (Size (snd (Insert 100 int_less_8 list_m1 0))) = 1"
  by code_simp

text \<open>
  C6. The descent over the levels does not stop at level 0. On the list that holds 1
  alone, \<open>Contains(2)\<close> and \<open>Erase(2)\<close> go on from level 0 to the level
  \<open>2 ^ 64 - 1\<close>, where the read of the header's link is out of bounds.
\<close>

theorem descent_goes_below_level_0:
  "fst (Contains 100 int_less_8 list_1 2) = Some (Inl (OutOfBounds 18446744073709551615))
   \<and> fst (Erase 100 int_less_8 list_1 2) = Some (Inl (OutOfBounds 18446744073709551615))"
  by code_simp

text \<open>
  C7. The loop of \<open>Erase\<close> reads the key of \<open>node->Next(i)\<close> where that link is absent.
  On the list that holds 1 alone the header has no next node at level 7, and the loop
  at level 7 from the header ends in the dereference of a null pointer.
\<close>

theorem Erase_walk_reads_absent_link:
  "deref (heap list_1) (Some (header_f list_1))
     = Inr \<lparr>links_f = [Some 1, Some 1, None, None, None, None, None, None], key_f = 0\<rparr>
   \<and> Erase_walk 100 (compare_f int_less_8) (heap list_1) 1 7 (Some (header_f list_1))
     = (Some (Inl NullDeref), heap list_1)"
  by code_simp

text \<open>
  C8. After \<open>Clear\<close> on the list that holds 1 alone, \<open>Empty\<close> returns true and
  \<open>Size\<close> still returns 1: \<open>Drop\<close> resets the links and nothing resets \<open>size_\<close>.
\<close>

theorem Clear_leaves_Size:
  "fst (Clear 100 int_less_8 list_1) = Some (Inr ())
   \<and> fst (Empty (snd (Clear 100 int_less_8 list_1))) = Some (Inr True)
   \<and> fst (Size (snd (Clear 100 int_less_8 list_1))) = 1"
  by code_simp

text \<open>
  C9. With \<open>MaxHeight\<close> at least 1, \<open>RandomHeight\<close> returns a height \<open>h\<close> between 1
  and \<open>MaxHeight\<close>. It is the height reached from 1 by one step for each draw divisible
  by 4: the first \<open>h - 1\<close> draws from the state of the generator are divisible by 4, and
  below the cap the next draw is not; at the cap no further draw is made. The call
  changes nothing of the list but the state of the generator, and the height and the
  new state depend on nothing but the generator and its state: two lists with the same
  generator in the same state get the same height and leave it in the same state.
\<close>

theorem RandomHeight_spec:
  assumes "1 \<le> MaxHeight T"
  shows "(let (h, s') = RandomHeight T s in
           1 \<le> h \<and> h \<le> MaxHeight T
           \<and> (\<forall>j < h - 1. rng_out T (rng_f s + j) mod 4 = 0)
           \<and> (h < MaxHeight T \<longrightarrow> rng_out T (rng_f s + (h - 1)) mod 4 \<noteq> 0)
           \<and> s' = s\<lparr>rng_f := rng_f s + (if h < MaxHeight T then h else h - 1)\<rparr>)
         \<and> (rng_f s2 = rng_f s \<longrightarrow>
               fst (RandomHeight T s2) = fst (RandomHeight T s)
               \<and> rng_f (snd (RandomHeight T s2)) = rng_f (snd (RandomHeight T s)))"
proof -
  obtain h c where hc: "RandomHeight_loop (rng_out T) (MaxHeight T) (rng_f s) 1 = (h, c)"
    by (cases "RandomHeight_loop (rng_out T) (MaxHeight T) (rng_f s) 1")
  note r0 = RandomHeight_loop_spec [OF assms hc]
  note r = r0 [THEN conjunct1] r0 [THEN conjunct2, THEN conjunct1]
    r0 [THEN conjunct2, THEN conjunct2, THEN conjunct1]
    r0 [THEN conjunct2, THEN conjunct2, THEN conjunct2, THEN conjunct1]
    r0 [THEN conjunct2, THEN conjunct2, THEN conjunct2, THEN conjunct2]
  have c: "c = rng_f s + (if h < MaxHeight T then h else h - 1)"
    using r(1,5) by (simp split: if_splits)
  have "RandomHeight T s = (h, s\<lparr>rng_f := c\<rparr>)"
    using hc by (simp add: RandomHeight_def)
  moreover have "rng_f s2 = rng_f s \<Longrightarrow> RandomHeight T s2 = (h, s2\<lparr>rng_f := c\<rparr>)"
    using hc by (simp add: RandomHeight_def)
  ultimately show ?thesis using r(1-4) c by simp
qed

text \<open>
  The theorem at the instance of the source, for the fresh list and, as the second
  list, the list that holds 5 with its generator set back to the start: the height is 2,
  after a first draw divisible by 4 and a second one that is not.
\<close>

theorem RandomHeight_spec_witness:
  "1 \<le> MaxHeight int_less_8
   \<and> fst (RandomHeight int_less_8 list0) = 2
   \<and> 2 \<le> MaxHeight int_less_8
   \<and> rng_out int_less_8 (rng_f list0) mod 4 = 0
   \<and> rng_out int_less_8 (rng_f list0 + 1) mod 4 \<noteq> 0
   \<and> snd (RandomHeight int_less_8 list0) = list0\<lparr>rng_f := rng_f list0 + 2\<rparr>
   \<and> rng_f (list_5\<lparr>rng_f := 0\<rparr>) = rng_f list0
   \<and> fst (RandomHeight int_less_8 (list_5\<lparr>rng_f := 0\<rparr>)) = 2
   \<and> rng_f (snd (RandomHeight int_less_8 (list_5\<lparr>rng_f := 0\<rparr>))) = rng_f list0 + 2"
proof -
  have m: "1 \<le> MaxHeight int_less_8"
    by (simp add: int_less_8_def)
  have r: "rng_f (list_5\<lparr>rng_f := 0\<rparr>) = rng_f list0"
    by (simp add: list0_def SkipList_new_def)
  have h: "fst (RandomHeight int_less_8 list0) = 2"
    by code_simp
  have cap: "(2::nat) < MaxHeight int_less_8"
    by (simp add: int_less_8_def)
  obtain s' where s': "RandomHeight int_less_8 list0 = (2, s')"
    using h by (cases "RandomHeight int_less_8 list0") simp
  note t = RandomHeight_spec [OF m, of list0 "list_5\<lparr>rng_f := 0\<rparr>"]
  from t s' cap have "\<forall>j<Suc 0. rng_out int_less_8 (rng_f list0 + j) mod 4 = 0"
    and "rng_out int_less_8 (rng_f list0 + 1) mod 4 \<noteq> 0"
    and "s' = list0\<lparr>rng_f := rng_f list0 + 2\<rparr>"
    by simp_all
  moreover from t r s'
  have "fst (RandomHeight int_less_8 (list_5\<lparr>rng_f := 0\<rparr>)) = 2"
    and "rng_f (snd (RandomHeight int_less_8 (list_5\<lparr>rng_f := 0\<rparr>))) = rng_f s'"
    by simp_all
  ultimately show ?thesis using m r s' cap by simp
qed

text \<open>
  C10. Of the public operations only \<open>Insert\<close> writes the size counter: after a call of
  \<open>Contains\<close>, \<open>Empty\<close>, \<open>Size\<close>, \<open>Erase\<close> or \<open>Clear\<close>, however the call ends,
  \<open>Size\<close> returns what it returned before, and after a call of \<open>Insert\<close> that returns
  true it returns one more (in \<open>size_t\<close>, so modulo \<open>2 ^ 64\<close>).
\<close>

theorem size_written_by_Insert_only:
  "fst (Size (snd (Contains fuel T s key))) = fst (Size s)
   \<and> fst (Size (snd (Empty s))) = fst (Size s)
   \<and> fst (Size (snd (Size s))) = fst (Size s)
   \<and> fst (Size (snd (Erase fuel T s key))) = fst (Size s)
   \<and> fst (Size (snd (Clear fuel T s))) = fst (Size s)
   \<and> (fst (Insert fuel T s key) = Some (Inr True) \<longrightarrow>
        fst (Size (snd (Insert fuel T s key))) = fst (Size s) + 1)"
proof -
  have "size_f (snd (Empty s)) = size_f s"
    by (simp add: Empty_def split: sum.splits)
  moreover have "size_f (snd (Erase fuel T s key)) = size_f s"
    by (simp add: Erase_def Erase_levels_size split: sum.splits option.splits)
  moreover have "size_f (snd (Clear fuel T s)) = size_f s"
    by (simp add: Clear_def Drop_def Drop_levels_size)
  moreover have "size_f (snd (Insert fuel T s key)) = size_f s + 1"
    if ok: "fst (Insert fuel T s key) = Some (Inr True)"
  proof -
    obtain rh s1 where rh: "RandomHeight T s = (rh, s1)"
      by (cases "RandomHeight T s")
    then have s1: "size_f s1 = size_f s"
      by (auto simp: RandomHeight_def split: prod.splits)
    show ?thesis
      using ok s1 Insert_descend_not_True [of fuel T "heap s1" key _ "header_f s1"]
      by (auto simp: Insert_def rh split: sum.splits option.splits flow.splits prod.splits)
  qed
  ultimately show ?thesis by (simp add: Size_def Contains_def)
qed

text \<open>
  The theorem on the list that holds 1 alone, with the key 2: \<open>Insert(2)\<close> returns
  true and the size goes from 1 to 2; the five other calls leave it at 1.
\<close>

theorem size_written_by_Insert_only_witness:
  "fst (Insert 100 int_less_8 list_1 2) = Some (Inr True)
   \<and> fst (Size list_1) = 1
   \<and> fst (Size (snd (Insert 100 int_less_8 list_1 2))) = fst (Size list_1) + 1
   \<and> fst (Size (snd (Contains 100 int_less_8 list_1 2))) = fst (Size list_1)
   \<and> fst (Size (snd (Empty list_1))) = fst (Size list_1)
   \<and> fst (Size (snd (Size list_1))) = fst (Size list_1)
   \<and> fst (Size (snd (Erase 100 int_less_8 list_1 2))) = fst (Size list_1)
   \<and> fst (Size (snd (Clear 100 int_less_8 list_1))) = fst (Size list_1)"
proof -
  have ok: "fst (Insert 100 int_less_8 list_1 2) = Some (Inr True)"
    by code_simp
  have sz: "fst (Size list_1) = 1"
    by code_simp
  from size_written_by_Insert_only [of 100 int_less_8 list_1 2] ok sz
  show ?thesis by blast
qed

end
